theory Spec2Isabelle
  imports Main
begin

section \<open>Data model of \<open>src/panels/RulesViewProvider.ts\<close>\<close>

text \<open>
  The two interfaces of the source file.  \<open>avatar\<close> is \<open>string | null\<close> there.
\<close>

record RuleAuthor =
  name :: string
  url :: string
  avatar :: "string option"

record Rule =
  title :: string
  slug :: string
  tags :: "string list"
  libs :: "string list"
  content :: string
  author :: RuleAuthor

text \<open>
  Texts that the program hands to \<open>JSON.parse\<close> (the bundled \<open>rules.json\<close>, the body
  of an HTTP response, the cached string in the configuration) are represented by what
  \<open>JSON.parse\<close> makes of them, at the type the source declares for the result
  (\<open>as Rule[]\<close>): a text that parses to an array of rules, the empty string (falsy in
  JavaScript, and a syntax error for \<open>JSON.parse\<close>), or any other text on which
  \<open>JSON.parse\<close> throws.  \<open>JSON.stringify(rules)\<close> and
  \<open>JSON.stringify(rules, null, 2)\<close> differ in white space only, so both yield the text
  that parses back to \<open>rules\<close>.
\<close>

datatype json_text = Rules_text "Rule list" | Empty_text | Invalid_text

datatype error =
    NetworkError  \<comment> \<open>the promise of \<open>fetch\<close> rejects\<close>
  | SyntaxError  \<comment> \<open>\<open>JSON.parse\<close> or \<open>response.json()\<close> throws\<close>
  | UpdateError  \<comment> \<open>the promise of \<open>WorkspaceConfiguration.update\<close> rejects\<close>
  | Error string  \<comment> \<open>\<open>new Error(message)\<close>\<close>

definition JSON_parse :: "json_text \<Rightarrow> error + Rule list" where
  "JSON_parse t = (case t of Rules_text rs \<Rightarrow> Inr rs | Empty_text \<Rightarrow> Inl SyntaxError | Invalid_text \<Rightarrow> Inl SyntaxError)"

definition JSON_stringify :: "Rule list \<Rightarrow> json_text" where
  "JSON_stringify rs = Rules_text rs"

text \<open>JavaScript truthiness of a string: every string but the empty one.\<close>

definition truthy :: "json_text \<Rightarrow> bool" where
  "truthy t = (t \<noteq> Empty_text)"

datatype http_method = HEAD | GET

record response =
  ok :: bool
  statusText :: string
  body :: json_text

text \<open>
  The value stored under \<open>cursorRules.lastSync\<close>: \<open>_getLastSync\<close> tests
  \<open>typeof value === 'number'\<close>.  Time stamps are epoch milliseconds, integers.
\<close>

datatype config_value = Number int | NonNumber

datatype panel_message =
    SetRules "Rule list" "int option" bool bool  \<comment> \<open>rules, lastSync, needsSync, isOffline\<close>
  | SyncComplete int

text \<open>What the program does to the outside that is not a change of stored state.\<close>

datatype event =
    ShowErrorMessage string
  | ShowInformationMessage string
  | ShowWarningMessage string "string list"
  | Fetch http_method
  | PostMessage panel_message
  | CreateWebviewPanel
  | Reveal

type_synonym path = "string \<times> string"

definition path_join :: "string \<Rightarrow> string \<Rightarrow> path" where
  "path_join dir file = (dir, file)"

text \<open>
  The state the program reads and writes: the bundled file at \<open>RULES_JSON_PATH\<close>
  (\<open>None\<close>: it does not exist), the first workspace folder, the files below workspace
  folders, the two configuration keys, the singleton's \<open>_panel\<close>, and the events so far.
  \<open>console.log\<close> and \<open>console.error\<close> are not recorded.
\<close>

record world =
  rulesJson :: "json_text option"
  workspaceFolder :: "string option"
  files :: "path \<rightharpoonup> string"
  lastSyncSetting :: "config_value option"
  cachedRulesSetting :: "json_text option"
  panel :: bool
  events :: "event list"

text \<open>
  What the outside answers during one user action: the outcome of \<open>fetch\<close> for each
  method, the readings of \<open>Date.now()\<close> at its three call sites (each runs at most once
  per action), whether \<open>fs.writeFileSync\<close> and the two \<open>update\<close> calls go through, and
  the button the user picks in the warning dialog (\<open>None\<close>: dismissed).
\<close>

record env =
  network :: "http_method \<Rightarrow> error + response"
  now_check :: int  \<comment> \<open>\<open>Date.now()\<close> in \<open>_loadRules\<close>\<close>
  now_saved :: int  \<comment> \<open>\<open>Date.now()\<close> passed to \<open>_setLastSync\<close>\<close>
  now_posted :: int  \<comment> \<open>\<open>Date.now()\<close> in the \<open>syncComplete\<close> message\<close>
  rulesJsonWritable :: bool
  fileWritable :: "path \<Rightarrow> bool"
  updateCacheOk :: bool
  updateLastSyncOk :: bool
  choice :: "string option"

record loaded =
  rules :: "Rule list"
  needsSync :: bool
  isOffline :: bool

datatype message = GetRules | SetRule Rule | SyncRules | OtherMessage

section \<open>The operations\<close>

definition emit :: "event \<Rightarrow> world \<Rightarrow> world" where
  "emit ev w = w\<lparr>events := events w @ [ev]\<rparr>"

definition fetch :: "env \<Rightarrow> http_method \<Rightarrow> world \<Rightarrow> (error + response) \<times> world" where
  "fetch e m w = (network e m, emit (Fetch m) w)"

definition json :: "response \<Rightarrow> error + Rule list" where
  "json r = JSON_parse (body r)"

definition getLastSync :: "world \<Rightarrow> int option" where
  "getLastSync w = (case lastSyncSetting w of Some (Number n) \<Rightarrow> Some n | _ \<Rightarrow> None)"

definition setLastSync :: "env \<Rightarrow> int \<Rightarrow> world \<Rightarrow> (error + unit) \<times> world" where
  "setLastSync e timestamp w =
     (if updateLastSyncOk e then (Inr (), w\<lparr>lastSyncSetting := Some (Number timestamp)\<rparr>)
      else (Inl UpdateError, w))"

definition loadLocalRules :: "world \<Rightarrow> Rule list" where
  "loadLocalRules w =
     (case rulesJson w of
        None \<Rightarrow> []
      | Some txt \<Rightarrow> (case JSON_parse txt of Inl _ \<Rightarrow> [] | Inr rs \<Rightarrow> rs))"

definition syncRules :: "env \<Rightarrow> world \<Rightarrow> (error + Rule list) \<times> world" where
  "syncRules e w =
     (case fetch e GET w of
        (Inl err, w1) \<Rightarrow> (Inl err, w1)
      | (Inr resp, w1) \<Rightarrow>
          if \<not> ok resp then (Inl (Error (''Failed to fetch rules: '' @ statusText resp)), w1)
          else (case json resp of
             Inl err \<Rightarrow> (Inl err, w1)
           | Inr rs \<Rightarrow>
               if \<not> rulesJsonWritable e then (Inl (Error ''Failed to save rules locally''), w1)
               else let w2 = w1\<lparr>rulesJson := Some (JSON_stringify rs)\<rparr> in
                 if \<not> updateCacheOk e then (Inl UpdateError, w2)
                 else let w3 = w2\<lparr>cachedRulesSetting := Some (JSON_stringify rs)\<rparr> in
                   (case setLastSync e (now_saved e) w3 of
                      (Inl err, w4) \<Rightarrow> (Inl err, w4)
                    | (Inr _, w4) \<Rightarrow>
                        let w5 = (if panel w4 then emit (PostMessage (SyncComplete (now_posted e))) w4 else w4)
                        in (Inr rs, emit (ShowInformationMessage ''Rules synced successfully!'') w5))))"

text \<open>
  \<open>!lastSync || Date.now() - lastSync > 24 * 60 * 60 * 1000\<close>: \<open>!lastSync\<close> holds for
  \<open>null\<close> and for the number \<open>0\<close>.
\<close>

definition computeNeedsSync :: "int option \<Rightarrow> int \<Rightarrow> bool" where
  "computeNeedsSync lastSync now =
     (case lastSync of
        None \<Rightarrow> True
      | Some t \<Rightarrow> t = 0 \<or> now - t > 24 * 60 * 60 * 1000)"

text \<open>
  The cached string as the test \<open>if (cachedRulesStr)\<close> lets it through: \<open>undefined\<close> and
  the empty string are falsy.
\<close>

definition getCachedRulesStr :: "world \<Rightarrow> json_text option" where
  "getCachedRulesStr w =
     (case cachedRulesSetting w of None \<Rightarrow> None | Some s \<Rightarrow> if truthy s then Some s else None)"

text \<open>
  \<open>_loadRules\<close>.  Its outer \<open>catch\<close> is reached from one place only, \<open>JSON.parse\<close> of the
  cached string: \<open>_loadLocalRules\<close> and the probe catch their own errors, and the call of
  \<open>_syncRules\<close> has a \<open>catch\<close> of its own.
\<close>

definition loadRules :: "env \<Rightarrow> world \<Rightarrow> loaded \<times> world" where
  "loadRules e w =
     (let localRules = loadLocalRules w in
      if length localRules = 0 then
        (\<lparr>rules = [], needsSync = True, isOffline = True\<rparr>,
         emit (ShowErrorMessage ''No local rules found. Please reinstall the extension.'') w)
      else
        (case fetch e HEAD w of (probe, w1) \<Rightarrow>
           let offline = (case probe of Inl _ \<Rightarrow> True | Inr resp \<Rightarrow> \<not> ok resp) in
           if offline then (\<lparr>rules = localRules, needsSync = True, isOffline = True\<rparr>, w1)
           else
             let lastSync = getLastSync w1;
                 needs = computeNeedsSync lastSync (now_check e)
             in
               (case (if \<not> needs then getCachedRulesStr w1 else None) of
                  Some cachedRulesStr \<Rightarrow>
                    (case JSON_parse cachedRulesStr of
                       Inr cachedRules \<Rightarrow>
                         (\<lparr>rules = cachedRules, needsSync = False, isOffline = False\<rparr>, w1)
                     | Inl err \<Rightarrow>
                         (\<lparr>rules = localRules, needsSync = True, isOffline = True\<rparr>,
                          emit (ShowErrorMessage ''Failed to load rules. Using local rules as fallback.'') w1))
                | None \<Rightarrow>
                    if needs then
                      (case syncRules e w1 of
                         (Inr syncedRules, w2) \<Rightarrow>
                           (\<lparr>rules = syncedRules, needsSync = False, isOffline = False\<rparr>, w2)
                       | (Inl err, w2) \<Rightarrow>
                           (\<lparr>rules = localRules, needsSync = True, isOffline = True\<rparr>, w2))
                    else (\<lparr>rules = localRules, needsSync = False, isOffline = False\<rparr>, w1))))"

definition sendRules :: "env \<Rightarrow> world \<Rightarrow> world" where
  "sendRules e w =
     (if \<not> panel w then w
      else (case loadRules e w of (r, w1) \<Rightarrow>
        let lastSync = getLastSync w1
        in emit (PostMessage (SetRules (rules r) lastSync (needsSync r) (isOffline r))) w1))"

definition setRule :: "env \<Rightarrow> Rule \<Rightarrow> world \<Rightarrow> world" where
  "setRule e rule w =
     (case workspaceFolder w of
        None \<Rightarrow> emit (ShowErrorMessage ''No workspace folder available'') w
      | Some fsPath \<Rightarrow>
          let cursorRulesPath = path_join fsPath ''.cursorrules'';
              existsSync = (files w cursorRulesPath \<noteq> None);
              w1 = (if existsSync
                    then emit (ShowWarningMessage
                           ''A .cursorrules file already exists. Do you want to overwrite it?''
                           [''Yes'', ''No'']) w
                    else w)
          in
            if existsSync \<and> choice e \<noteq> Some ''Yes'' then w1
            else if fileWritable e cursorRulesPath then
              emit (ShowInformationMessage (''Successfully applied rule: '' @ title rule))
                (w1\<lparr>files := (files w1)(cursorRulesPath \<mapsto> content rule)\<rparr>)
            else
              emit (ShowErrorMessage ''Failed to apply rule. Please check console for details.'') w1)"

text \<open>
  The handler registered with \<open>onDidReceiveMessage\<close>.  \<open>Inl err\<close> is the handler's
  promise rejecting with \<open>err\<close>: nothing in the handler catches what its \<open>await\<close>s throw.
  \<open>_sendRules\<close> and \<open>_setRule\<close> have no throwing path of their own; \<open>_syncRules\<close>
  re-throws.
\<close>

definition onDidReceiveMessage :: "env \<Rightarrow> message \<Rightarrow> world \<Rightarrow> (error + unit) \<times> world" where
  "onDidReceiveMessage e data w =
     (case data of
        GetRules \<Rightarrow> (Inr (), sendRules e w)
      | SetRule rule \<Rightarrow> (Inr (), setRule e rule w)
      | SyncRules \<Rightarrow>
          (case syncRules e w of (Inl err, w1) \<Rightarrow> (Inl err, w1) | (Inr _, w1) \<Rightarrow> (Inr (), w1))
      | OtherMessage \<Rightarrow> (Inr (), w))"

text \<open>\<open>show()\<close>, the body of the command \<open>cursor-rules.openViewer\<close>; the HTML is not modelled.\<close>

definition show_panel :: "env \<Rightarrow> world \<Rightarrow> world" where
  "show_panel e w =
     (if panel w then emit Reveal w
      else sendRules e (emit CreateWebviewPanel (w\<lparr>panel := True\<rparr>)))"

section \<open>Predicates of the claims\<close>

text \<open>The reachability probe fails: a network error or a response that is not \<open>ok\<close>.\<close>

definition probeFails :: "env \<Rightarrow> bool" where
  "probeFails e = (case network e HEAD of Inl _ \<Rightarrow> True | Inr resp \<Rightarrow> \<not> ok resp)"

text \<open>
  The fetch of the rule list fails: a network error, a response that is not \<open>ok\<close>, or
  a body that does not parse.
\<close>

definition fetchFails :: "env \<Rightarrow> bool" where
  "fetchFails e =
     (case network e GET of
        Inl _ \<Rightarrow> True
      | Inr resp \<Rightarrow> \<not> ok resp \<or> (case json resp of Inl _ \<Rightarrow> True | Inr _ \<Rightarrow> False))"

text \<open>The fetch of the rule list succeeds and its body parses to \<open>rs\<close>.\<close>

definition fetched :: "env \<Rightarrow> Rule list \<Rightarrow> bool" where
  "fetched e rs =
     (case network e GET of
        Inl _ \<Rightarrow> False
      | Inr resp \<Rightarrow> ok resp \<and> json resp = Inr rs)"

text \<open>The events that are notifications to the user.\<close>

fun notification :: "event \<Rightarrow> bool" where
  "notification (ShowErrorMessage _) = True"
| "notification (ShowInformationMessage _) = True"
| "notification (ShowWarningMessage _ _) = True"
| "notification _ = False"

text \<open>
  The rule for \<open>needsSync\<close> in the words of the specification: the time stamp is absent or
  more than 86,400,000 ms before \<open>now\<close>.  It is compared with \<open>computeNeedsSync\<close> below.
\<close>

definition spec_needsSync :: "int option \<Rightarrow> int \<Rightarrow> bool" where
  "spec_needsSync lastSyncTimestamp now =
     (case lastSyncTimestamp of None \<Rightarrow> True | Some t \<Rightarrow> now - t > 86400000)"

section \<open>Concrete inputs\<close>

definition ruleA :: Rule where
  "ruleA = \<lparr>title = ''A'', slug = ''a'', tags = [''ts''], libs = [], content = ''Use strict mode.'',
            author = \<lparr>name = ''ann'', url = ''https://example.org/ann'', avatar = None\<rparr>\<rparr>"

definition ruleB :: Rule where
  "ruleB = \<lparr>title = ''B'', slug = ''b'', tags = [''py''], libs = [''numpy''], content = ''Prefer type hints.'',
            author = \<lparr>name = ''bob'', url = ''https://example.org/bob'', avatar = Some ''b.png''\<rparr>\<rparr>"

text \<open>
  A fresh installation: the bundled file holds one rule, nothing is cached, no sync has
  happened, a workspace is open and the panel is shown.
\<close>

definition world0 :: world where
  "world0 = \<lparr>rulesJson = Some (Rules_text [ruleA]), workspaceFolder = Some ''/home/u/project'',
             files = Map.empty, lastSyncSetting = None, cachedRulesSetting = None,
             panel = True, events = []\<rparr>"

text \<open>
  A reachable remote that returns two rules, a clock at 1700000000000 ms, writes and
  updates that go through, and a user who declines.
\<close>

definition env0 :: env where
  "env0 = \<lparr>network = (\<lambda>m. Inr \<lparr>ok = True, statusText = ''OK'', body = Rules_text [ruleA, ruleB]\<rparr>),
           now_check = 1700000000000, now_saved = 1700000000100, now_posted = 1700000000101,
           rulesJsonWritable = True, fileWritable = (\<lambda>p. True),
           updateCacheOk = True, updateLastSyncOk = True, choice = Some ''No''\<rparr>"

section \<open>The flags returned by the load routine\<close>

text \<open>
  Claim C10.  Whatever the load routine returns (empty local rules, offline, cached rules,
  freshly synced rules, a failed sync, the default fallback, or the fallback after a caught
  exception), the returned \<open>needsSync\<close> flag equals the returned \<open>isOffline\<close> flag.
\<close>

theorem loadRules_needsSync_eq_isOffline:
  "needsSync (fst (loadRules e w)) = isOffline (fst (loadRules e w))"
  by (simp add: loadRules_def Let_def fetch_def split: prod.splits sum.splits option.splits)

text \<open>
  Claim C2.  When the reachability probe fails, the load routine returns the local bundled
  rule set with \<open>needsSync = true\<close> and \<open>isOffline = true\<close>, whatever the cache holds.
\<close>

theorem loadRules_offline:
  assumes "probeFails e"
  shows "fst (loadRules e w) = \<lparr>rules = loadLocalRules w, needsSync = True, isOffline = True\<rparr>"
  using assms
  by (simp add: loadRules_def probeFails_def Let_def fetch_def split: sum.splits)

theorem loadRules_offline_witness:
  "probeFails (env0\<lparr>network := \<lambda>m. Inl NetworkError\<rparr>)
   \<and> fst (loadRules (env0\<lparr>network := \<lambda>m. Inl NetworkError\<rparr>)
             (world0\<lparr>cachedRulesSetting := Some (Rules_text [ruleB])\<rparr>))
     = \<lparr>rules = [ruleA], needsSync = True, isOffline = True\<rparr>"
proof -
  have h: "probeFails (env0\<lparr>network := \<lambda>m. Inl NetworkError\<rparr>)"
    by (simp add: probeFails_def env0_def)
  show ?thesis
    using h loadRules_offline [OF h, of "world0\<lparr>cachedRulesSetting := Some (Rules_text [ruleB])\<rparr>"]
    by (simp add: loadLocalRules_def world0_def JSON_parse_def)
qed

section \<open>When a sync is needed\<close>

text \<open>
  Claim C3, as the specification states it, fails for the time stamp \<open>0\<close>: the source
  tests \<open>!lastSync\<close>, which holds for the number \<open>0\<close> as it does for \<open>null\<close>, so with
  the clock at 1000 ms the flag is set although the time stamp is present and only 1000 ms old.
\<close>

theorem needsSync_zero_counterexample:
  "getLastSync (world0\<lparr>lastSyncSetting := Some (Number 0)\<rparr>) = Some 0
   \<and> computeNeedsSync (getLastSync (world0\<lparr>lastSyncSetting := Some (Number 0)\<rparr>)) 1000
   \<and> \<not> spec_needsSync (getLastSync (world0\<lparr>lastSyncSetting := Some (Number 0)\<rparr>)) 1000"
  by (simp add: getLastSync_def world0_def computeNeedsSync_def spec_needsSync_def)

text \<open>
  Claim C3, amended.  The computed \<open>needsSync\<close> flag is true if and only if the stored time
  stamp is absent (no number is stored), or is the number \<open>0\<close>, or \<open>now\<close> minus the time
  stamp exceeds 86,400,000 ms; for a time stamp other than \<open>0\<close> it is false at exactly
  24 hours.
\<close>

theorem computeNeedsSync_iff:
  "(computeNeedsSync (getLastSync w) now \<longleftrightarrow>
      spec_needsSync (getLastSync w) now \<or> lastSyncSetting w = Some (Number 0))
   \<and> (getLastSync w = None \<longleftrightarrow> (\<forall>n. lastSyncSetting w \<noteq> Some (Number n)))
   \<and> (lastSyncSetting w = Some (Number t) \<and> t \<noteq> 0
        \<longrightarrow> \<not> computeNeedsSync (getLastSync w) (t + 86400000)
          \<and> computeNeedsSync (getLastSync w) (t + 86400001))"
  by (auto simp: computeNeedsSync_def spec_needsSync_def getLastSync_def
           split: option.splits config_value.splits)

theorem computeNeedsSync_iff_witness:
  "lastSyncSetting (world0\<lparr>lastSyncSetting := Some (Number 1700000000000)\<rparr>) = Some (Number 1700000000000)
   \<and> (1700000000000 :: int) \<noteq> 0
   \<and> \<not> computeNeedsSync (getLastSync (world0\<lparr>lastSyncSetting := Some (Number 1700000000000)\<rparr>)) 1700086400000
   \<and> computeNeedsSync (getLastSync (world0\<lparr>lastSyncSetting := Some (Number 1700000000000)\<rparr>)) 1700086400001
   \<and> computeNeedsSync (getLastSync world0) 1700000000000"
  using computeNeedsSync_iff [of "world0\<lparr>lastSyncSetting := Some (Number 1700000000000)\<rparr>" 0 1700000000000]
    computeNeedsSync_iff [of world0 1700000000000 1]
  by (simp add: world0_def getLastSync_def spec_needsSync_def)

section \<open>Loading with a fresh cache\<close>

text \<open>
  Claim C1, as the specification states it, fails for the time stamp \<open>0\<close>.  With the
  clock at 1000 ms the time stamp \<open>0\<close> is within 24 hours of now, the probe succeeds and
  the configuration holds a cached one-rule set; the routine still fetches the rule list
  with \<open>GET\<close> and returns the two fetched rules, not the cached set.
\<close>

theorem loadRules_cached_counterexample:
  "lastSyncSetting (world0\<lparr>lastSyncSetting := Some (Number 0), cachedRulesSetting := Some (Rules_text [ruleA])\<rparr>)
     = Some (Number 0)
   \<and> now_check (env0\<lparr>now_check := 1000\<rparr>) - 0 \<le> 86400000
   \<and> \<not> probeFails (env0\<lparr>now_check := 1000\<rparr>)
   \<and> cachedRulesSetting (world0\<lparr>lastSyncSetting := Some (Number 0), cachedRulesSetting := Some (Rules_text [ruleA])\<rparr>)
     = Some (Rules_text [ruleA])
   \<and> Fetch GET \<in> set (events (snd (loadRules (env0\<lparr>now_check := 1000\<rparr>)
        (world0\<lparr>lastSyncSetting := Some (Number 0), cachedRulesSetting := Some (Rules_text [ruleA])\<rparr>))))
   \<and> rules (fst (loadRules (env0\<lparr>now_check := 1000\<rparr>)
        (world0\<lparr>lastSyncSetting := Some (Number 0), cachedRulesSetting := Some (Rules_text [ruleA])\<rparr>)))
     = [ruleA, ruleB]"
  by (simp add: loadRules_def syncRules_def fetch_def emit_def json_def setLastSync_def
        loadLocalRules_def getLastSync_def computeNeedsSync_def probeFails_def
        JSON_parse_def JSON_stringify_def getCachedRulesStr_def truthy_def world0_def env0_def Let_def)

text \<open>
  Claim C1, amended.  For every time stamp other than \<open>0\<close> with
  \<open>now - lastSyncTimestamp \<le> 86,400,000\<close>, when the bundled rules are not empty (so that
  the probe is made), the probe succeeds and the configuration holds a cached rule set,
  the load routine returns exactly the cached rule set with \<open>needsSync = false\<close> and
  \<open>isOffline = false\<close>; the probe is the only thing it does besides: it makes no
  \<open>GET\<close> request and changes no stored state.
\<close>

theorem loadRules_cached:
  assumes "loadLocalRules w \<noteq> []"
    and "\<not> probeFails e"
    and "lastSyncSetting w = Some (Number t)" and "t \<noteq> 0" and "now_check e - t \<le> 86400000"
    and "cachedRulesSetting w = Some (Rules_text cached)"
  shows "fst (loadRules e w) = \<lparr>rules = cached, needsSync = False, isOffline = False\<rparr>
    \<and> snd (loadRules e w) = emit (Fetch HEAD) w
    \<and> Fetch GET \<notin> set (drop (length (events w)) (events (snd (loadRules e w))))"
proof -
  have needs: "\<not> computeNeedsSync (getLastSync (emit (Fetch HEAD) w)) (now_check e)"
    using assms(3-5) by (simp add: computeNeedsSync_def getLastSync_def emit_def)
  have cache: "cachedRulesSetting (emit (Fetch HEAD) w) = Some (Rules_text cached)"
    using assms(6) by (simp add: emit_def)
  have online: "(case network e HEAD of Inl _ \<Rightarrow> True | Inr resp \<Rightarrow> \<not> ok resp) = False"
    using assms(2) by (simp add: probeFails_def)
  have run: "loadRules e w = (\<lparr>rules = cached, needsSync = False, isOffline = False\<rparr>, emit (Fetch HEAD) w)"
    using assms(1) needs cache online
    by (simp add: loadRules_def fetch_def Let_def getCachedRulesStr_def truthy_def JSON_parse_def)
  show ?thesis
    by (simp add: run) (simp add: emit_def)
qed

theorem loadRules_cached_witness:
  "loadLocalRules (world0\<lparr>lastSyncSetting := Some (Number 1699990000000), cachedRulesSetting := Some (Rules_text [ruleB])\<rparr>) \<noteq> []
   \<and> \<not> probeFails env0
   \<and> (1699990000000 :: int) \<noteq> 0
   \<and> now_check env0 - 1699990000000 \<le> 86400000
   \<and> fst (loadRules env0 (world0\<lparr>lastSyncSetting := Some (Number 1699990000000), cachedRulesSetting := Some (Rules_text [ruleB])\<rparr>))
     = \<lparr>rules = [ruleB], needsSync = False, isOffline = False\<rparr>
   \<and> events (snd (loadRules env0 (world0\<lparr>lastSyncSetting := Some (Number 1699990000000), cachedRulesSetting := Some (Rules_text [ruleB])\<rparr>)))
     = [Fetch HEAD]"
proof -
  let ?w = "world0\<lparr>lastSyncSetting := Some (Number 1699990000000), cachedRulesSetting := Some (Rules_text [ruleB])\<rparr>"
  have h1: "loadLocalRules ?w \<noteq> []"
    by (simp add: loadLocalRules_def world0_def JSON_parse_def)
  have h2: "\<not> probeFails env0"
    by (simp add: probeFails_def env0_def)
  have h3: "lastSyncSetting ?w = Some (Number 1699990000000)"
    by simp
  have h4: "(1699990000000 :: int) \<noteq> 0"
    by simp
  have h5: "now_check env0 - 1699990000000 \<le> 86400000"
    by (simp add: env0_def)
  have h6: "cachedRulesSetting ?w = Some (Rules_text [ruleB])"
    by simp
  show ?thesis
    using h1 h2 h4 h5 loadRules_cached [OF h1 h2 h3 h4 h5 h6]
    by (simp add: emit_def world0_def)
qed

section \<open>The sync routine\<close>

lemma syncRules_success:
  assumes "fetched e rs" and "rulesJsonWritable e" and "updateCacheOk e" and "updateLastSyncOk e"
  shows "\<exists>w'. syncRules e w = (Inr rs, w')
    \<and> cachedRulesSetting w' = Some (JSON_stringify rs)
    \<and> lastSyncSetting w' = Some (Number (now_saved e))
    \<and> rulesJson w' = Some (JSON_stringify rs)"
  using assms
  by (auto simp: syncRules_def fetched_def fetch_def setLastSync_def emit_def Let_def
           split: sum.splits)

lemma syncRules_fetch_failure:
  assumes "fetchFails e"
  shows "\<exists>err. syncRules e w = (Inl err, emit (Fetch GET) w)"
  using assms
  by (auto simp: syncRules_def fetchFails_def fetch_def split: sum.splits)

lemma syncRules_save_failure:
  assumes "fetched e rs" and "\<not> rulesJsonWritable e"
  shows "syncRules e w = (Inl (Error ''Failed to save rules locally''), emit (Fetch GET) w)"
  using assms
  by (auto simp: syncRules_def fetched_def fetch_def split: sum.splits)

lemma loadRules_online:
  assumes "loadLocalRules w \<noteq> []" and "\<not> probeFails e"
    and "computeNeedsSync (getLastSync w) (now_check e)"
  shows "loadRules e w =
    (case syncRules e (emit (Fetch HEAD) w) of
       (Inr syncedRules, w2) \<Rightarrow> (\<lparr>rules = syncedRules, needsSync = False, isOffline = False\<rparr>, w2)
     | (Inl err, w2) \<Rightarrow> (\<lparr>rules = loadLocalRules w, needsSync = True, isOffline = True\<rparr>, w2))"
proof -
  have online: "(case network e HEAD of Inl _ \<Rightarrow> True | Inr resp \<Rightarrow> \<not> ok resp) = False"
    using assms(2) by (simp add: probeFails_def)
  have needs: "computeNeedsSync (getLastSync (emit (Fetch HEAD) w)) (now_check e)"
    using assms(3) by (simp add: getLastSync_def emit_def)
  show ?thesis
    using assms(1) online needs by (simp add: loadRules_def fetch_def Let_def)
qed

section \<open>Loading with a stale or missing time stamp\<close>

text \<open>
  Claim C4, as the specification states it, fails when the fetched rules cannot be saved
  to the bundled file: the source turns that into the error \<open>Failed to save rules locally\<close>,
  and the load routine falls back to the local rules with both flags true and nothing
  persisted, although the endpoint is reachable, a sync is needed, and fetch and parse
  succeeded.
\<close>

theorem loadRules_synced_counterexample:
  "\<not> probeFails (env0\<lparr>rulesJsonWritable := False\<rparr>)
   \<and> computeNeedsSync (getLastSync world0) (now_check (env0\<lparr>rulesJsonWritable := False\<rparr>))
   \<and> fetched (env0\<lparr>rulesJsonWritable := False\<rparr>) [ruleA, ruleB]
   \<and> fst (loadRules (env0\<lparr>rulesJsonWritable := False\<rparr>) world0)
       = \<lparr>rules = [ruleA], needsSync = True, isOffline = True\<rparr>
   \<and> cachedRulesSetting (snd (loadRules (env0\<lparr>rulesJsonWritable := False\<rparr>) world0)) = None
   \<and> lastSyncSetting (snd (loadRules (env0\<lparr>rulesJsonWritable := False\<rparr>) world0)) = None"
  by (simp add: loadRules_def syncRules_def fetch_def emit_def json_def fetched_def
        loadLocalRules_def getLastSync_def computeNeedsSync_def probeFails_def
        JSON_parse_def world0_def env0_def Let_def)

text \<open>
  Claim C4, amended.  For every load in which the bundled rules are not empty, the
  endpoint is reachable, a sync is needed, the remote fetch and parse succeed, and the
  write of the bundled file and the two configuration updates go through, the routine
  persists the fetched rules as the new cache (and as the new bundled file), persists
  \<open>lastSyncTimestamp = now\<close>, and returns the fetched rule set with \<open>needsSync = false\<close>
  and \<open>isOffline = false\<close>.
\<close>

theorem loadRules_synced:
  assumes "loadLocalRules w \<noteq> []" and "\<not> probeFails e"
    and "computeNeedsSync (getLastSync w) (now_check e)"
    and "fetched e rs"
    and "rulesJsonWritable e" and "updateCacheOk e" and "updateLastSyncOk e"
  shows "fst (loadRules e w) = \<lparr>rules = rs, needsSync = False, isOffline = False\<rparr>
    \<and> cachedRulesSetting (snd (loadRules e w)) = Some (JSON_stringify rs)
    \<and> JSON_parse (JSON_stringify rs) = Inr rs
    \<and> lastSyncSetting (snd (loadRules e w)) = Some (Number (now_saved e))
    \<and> rulesJson (snd (loadRules e w)) = Some (JSON_stringify rs)"
proof -
  obtain w' where sync: "syncRules e (emit (Fetch HEAD) w) = (Inr rs, w')"
    and cache: "cachedRulesSetting w' = Some (JSON_stringify rs)"
    and stamp: "lastSyncSetting w' = Some (Number (now_saved e))"
    and bundled: "rulesJson w' = Some (JSON_stringify rs)"
    using syncRules_success [OF assms(4-7)] by blast
  have "loadRules e w = (\<lparr>rules = rs, needsSync = False, isOffline = False\<rparr>, w')"
    by (simp add: loadRules_online [OF assms(1-3)] sync)
  then show ?thesis
    using cache stamp bundled by (simp add: JSON_parse_def JSON_stringify_def)
qed

text \<open>
  The example of the specification: no time stamp, a one-rule local set and a reachable
  remote that returns two rules.
\<close>

theorem loadRules_synced_witness:
  "loadLocalRules world0 = [ruleA]
   \<and> \<not> probeFails env0
   \<and> computeNeedsSync (getLastSync world0) (now_check env0)
   \<and> fetched env0 [ruleA, ruleB]
   \<and> rulesJsonWritable env0 \<and> updateCacheOk env0 \<and> updateLastSyncOk env0
   \<and> fst (loadRules env0 world0) = \<lparr>rules = [ruleA, ruleB], needsSync = False, isOffline = False\<rparr>
   \<and> cachedRulesSetting (snd (loadRules env0 world0)) = Some (Rules_text [ruleA, ruleB])
   \<and> lastSyncSetting (snd (loadRules env0 world0)) = Some (Number 1700000000100)"
proof -
  have h1: "loadLocalRules world0 = [ruleA]"
    by (simp add: loadLocalRules_def world0_def JSON_parse_def)
  then have h1': "loadLocalRules world0 \<noteq> []"
    by simp
  have h2: "\<not> probeFails env0"
    by (simp add: probeFails_def env0_def)
  have h3: "computeNeedsSync (getLastSync world0) (now_check env0)"
    by (simp add: computeNeedsSync_def getLastSync_def world0_def)
  have h4: "fetched env0 [ruleA, ruleB]"
    by (simp add: fetched_def env0_def json_def JSON_parse_def)
  have h5: "rulesJsonWritable env0" and h6: "updateCacheOk env0" and h7: "updateLastSyncOk env0"
    by (simp_all add: env0_def)
  have saved: "now_saved env0 = 1700000000100"
    by (simp add: env0_def)
  show ?thesis
    using h1 h2 h3 h4 h5 h6 h7 loadRules_synced [OF h1' h2 h3 h4 h5 h6 h7]
    by (simp add: JSON_stringify_def saved)
qed

text \<open>
  Claim C5.  For every load in which a sync is needed and the fetch fails (network error,
  response that is not \<open>ok\<close>, or body that does not parse), the routine returns the local
  bundled rules with \<open>needsSync = true\<close> and \<open>isOffline = true\<close>, and the failed
  attempt leaves the time stamp, the cached rules and the bundled file as they were; the
  event log is the only part of the state that differs.
\<close>

theorem loadRules_fetch_failure:
  assumes "computeNeedsSync (getLastSync w) (now_check e)" and "fetchFails e"
  shows "fst (loadRules e w) = \<lparr>rules = loadLocalRules w, needsSync = True, isOffline = True\<rparr>
    \<and> lastSyncSetting (snd (loadRules e w)) = lastSyncSetting w
    \<and> cachedRulesSetting (snd (loadRules e w)) = cachedRulesSetting w
    \<and> rulesJson (snd (loadRules e w)) = rulesJson w
    \<and> (snd (loadRules e w))\<lparr>events := events w\<rparr> = w"
proof (cases "loadLocalRules w = [] \<or> probeFails e")
  case True
  then show ?thesis
    by (auto simp: loadRules_def probeFails_def fetch_def emit_def Let_def split: sum.splits)
next
  case False
  then have nonempty: "loadLocalRules w \<noteq> []" and online: "\<not> probeFails e"
    by simp_all
  obtain err where sync: "syncRules e (emit (Fetch HEAD) w) = (Inl err, emit (Fetch GET) (emit (Fetch HEAD) w))"
    using syncRules_fetch_failure [OF assms(2)] by blast
  have "loadRules e w =
      (\<lparr>rules = loadLocalRules w, needsSync = True, isOffline = True\<rparr>, emit (Fetch GET) (emit (Fetch HEAD) w))"
    by (simp add: loadRules_online [OF nonempty online assms(1)] sync)
  then show ?thesis
    by (simp add: emit_def)
qed

theorem loadRules_fetch_failure_witness:
  "computeNeedsSync (getLastSync world0) (now_check (env0\<lparr>network := (\<lambda>m. case m of HEAD \<Rightarrow> network env0 HEAD | GET \<Rightarrow> Inl NetworkError)\<rparr>))
   \<and> fetchFails (env0\<lparr>network := (\<lambda>m. case m of HEAD \<Rightarrow> network env0 HEAD | GET \<Rightarrow> Inl NetworkError)\<rparr>)
   \<and> \<not> probeFails (env0\<lparr>network := (\<lambda>m. case m of HEAD \<Rightarrow> network env0 HEAD | GET \<Rightarrow> Inl NetworkError)\<rparr>)
   \<and> fst (loadRules (env0\<lparr>network := (\<lambda>m. case m of HEAD \<Rightarrow> network env0 HEAD | GET \<Rightarrow> Inl NetworkError)\<rparr>) world0)
       = \<lparr>rules = [ruleA], needsSync = True, isOffline = True\<rparr>
   \<and> cachedRulesSetting (snd (loadRules (env0\<lparr>network := (\<lambda>m. case m of HEAD \<Rightarrow> network env0 HEAD | GET \<Rightarrow> Inl NetworkError)\<rparr>) world0)) = None
   \<and> rulesJson (snd (loadRules (env0\<lparr>network := (\<lambda>m. case m of HEAD \<Rightarrow> network env0 HEAD | GET \<Rightarrow> Inl NetworkError)\<rparr>) world0)) = Some (Rules_text [ruleA])"
proof -
  let ?e = "env0\<lparr>network := (\<lambda>m. case m of HEAD \<Rightarrow> network env0 HEAD | GET \<Rightarrow> Inl NetworkError)\<rparr>"
  have h1: "computeNeedsSync (getLastSync world0) (now_check ?e)"
    by (simp add: computeNeedsSync_def getLastSync_def world0_def)
  have h2: "fetchFails ?e"
    by (simp add: fetchFails_def)
  have h3: "\<not> probeFails ?e"
    by (simp add: probeFails_def env0_def)
  have bundled: "loadLocalRules world0 = [ruleA]"
    by (simp add: loadLocalRules_def world0_def JSON_parse_def)
  have state: "cachedRulesSetting world0 = None" "rulesJson world0 = Some (Rules_text [ruleA])"
    by (simp_all add: world0_def)
  show ?thesis
    using h1 h2 h3 loadRules_fetch_failure [OF h1 h2] by (simp add: bundled state)
qed

section \<open>The two configuration keys\<close>

lemma syncRules_stamp_rejected:
  assumes "fetched e rs" and "rulesJsonWritable e" and "updateCacheOk e" and "\<not> updateLastSyncOk e"
  shows "\<exists>w'. syncRules e w = (Inl UpdateError, w')
    \<and> cachedRulesSetting w' = Some (JSON_stringify rs)
    \<and> lastSyncSetting w' = lastSyncSetting w"
  using assms
  by (auto simp: syncRules_def fetched_def fetch_def setLastSync_def emit_def Let_def
           split: sum.splits)

lemma syncRules_returns:
  assumes "syncRules e w = (Inr rs, w')"
  shows "fetched e rs \<and> cachedRulesSetting w' = Some (JSON_stringify rs)
    \<and> lastSyncSetting w' = Some (Number (now_saved e))"
  using assms
  by (auto simp: syncRules_def fetched_def fetch_def setLastSync_def emit_def Let_def
           split: sum.splits if_splits)

lemma syncRules_throws:
  assumes "syncRules e w = (Inl err, w')"
  shows "lastSyncSetting w' = lastSyncSetting w
    \<and> (cachedRulesSetting w' \<noteq> cachedRulesSetting w
        \<longrightarrow> (\<exists>rs. fetched e rs \<and> cachedRulesSetting w' = Some (JSON_stringify rs)) \<and> \<not> updateLastSyncOk e)"
  using assms
  by (auto simp: syncRules_def fetched_def fetch_def setLastSync_def emit_def Let_def
           split: sum.splits if_splits)

lemma syncRules_frame:
  assumes "cachedRulesSetting (snd (syncRules e w)) \<noteq> cachedRulesSetting w
         \<or> lastSyncSetting (snd (syncRules e w)) \<noteq> lastSyncSetting w"
  shows "\<exists>rs. fetched e rs"
  using assms
  by (auto simp: syncRules_def fetched_def fetch_def setLastSync_def emit_def Let_def
           split: sum.splits if_splits)

lemma loadRules_frame:
  assumes "cachedRulesSetting (snd (loadRules e w)) \<noteq> cachedRulesSetting w
         \<or> lastSyncSetting (snd (loadRules e w)) \<noteq> lastSyncSetting w"
  shows "\<exists>rs. fetched e rs"
proof -
  have pre: "cachedRulesSetting (emit (Fetch HEAD) w) = cachedRulesSetting w"
    "lastSyncSetting (emit (Fetch HEAD) w) = lastSyncSetting w"
    by (simp_all add: emit_def)
  have "cachedRulesSetting (snd (syncRules e (emit (Fetch HEAD) w))) \<noteq> cachedRulesSetting (emit (Fetch HEAD) w)
         \<or> lastSyncSetting (snd (syncRules e (emit (Fetch HEAD) w))) \<noteq> lastSyncSetting (emit (Fetch HEAD) w)"
    using assms unfolding pre
    by (auto simp: loadRules_def fetch_def Let_def emit_def
             split: sum.splits if_splits option.splits prod.splits)
  then show ?thesis
    by (rule syncRules_frame)
qed

lemma handler_frame:
  assumes "cachedRulesSetting (snd (onDidReceiveMessage e m w)) \<noteq> cachedRulesSetting w
         \<or> lastSyncSetting (snd (onDidReceiveMessage e m w)) \<noteq> lastSyncSetting w"
  shows "\<exists>rs. fetched e rs"
proof (cases m)
  case GetRules
  then have "cachedRulesSetting (snd (loadRules e w)) \<noteq> cachedRulesSetting w
         \<or> lastSyncSetting (snd (loadRules e w)) \<noteq> lastSyncSetting w"
    using assms
    by (auto simp: onDidReceiveMessage_def sendRules_def emit_def Let_def split: if_splits prod.splits)
  then show ?thesis by (rule loadRules_frame)
next
  case (SetRule rule)
  then show ?thesis
    using assms
    by (auto simp: onDidReceiveMessage_def setRule_def emit_def Let_def split: option.splits if_splits)
next
  case SyncRules
  then have "cachedRulesSetting (snd (syncRules e w)) \<noteq> cachedRulesSetting w
         \<or> lastSyncSetting (snd (syncRules e w)) \<noteq> lastSyncSetting w"
    using assms
    by (auto simp: onDidReceiveMessage_def split: prod.splits sum.splits)
  then show ?thesis by (rule syncRules_frame)
next
  case OtherMessage
  then show ?thesis
    using assms by (simp add: onDidReceiveMessage_def)
qed

lemma show_panel_frame:
  assumes "cachedRulesSetting (show_panel e w) \<noteq> cachedRulesSetting w
         \<or> lastSyncSetting (show_panel e w) \<noteq> lastSyncSetting w"
  shows "\<exists>rs. fetched e rs"
proof -
  let ?w = "emit CreateWebviewPanel (w\<lparr>panel := True\<rparr>)"
  have pre: "cachedRulesSetting ?w = cachedRulesSetting w" "lastSyncSetting ?w = lastSyncSetting w"
    by (simp_all add: emit_def)
  have "cachedRulesSetting (snd (loadRules e ?w)) \<noteq> cachedRulesSetting ?w
         \<or> lastSyncSetting (snd (loadRules e ?w)) \<noteq> lastSyncSetting ?w"
    using assms unfolding pre
    by (auto simp: show_panel_def sendRules_def emit_def Let_def split: if_splits prod.splits)
  then show ?thesis by (rule loadRules_frame)
qed

text \<open>
  Claim C6, as the specification states it, fails when the update of the time stamp is
  rejected after the update of the cached rules went through: the sync attempt fails, the
  cache holds the two fetched rules, and the time stamp is still absent, which is what
  the next read of the two keys sees.
\<close>

theorem syncRules_partial_counterexample:
  "fst (syncRules (env0\<lparr>updateLastSyncOk := False\<rparr>) world0) = Inl UpdateError
   \<and> cachedRulesSetting world0 = None
   \<and> cachedRulesSetting (snd (syncRules (env0\<lparr>updateLastSyncOk := False\<rparr>) world0))
       = Some (Rules_text [ruleA, ruleB])
   \<and> getLastSync world0 = None
   \<and> getLastSync (snd (syncRules (env0\<lparr>updateLastSyncOk := False\<rparr>) world0)) = None"
  by (simp add: syncRules_def fetch_def emit_def json_def setLastSync_def getLastSync_def
        JSON_parse_def JSON_stringify_def world0_def env0_def Let_def)

text \<open>
  Claim C6, amended.  No message to the panel and no run of the open command changes
  either configuration key unless the fetch and the parse succeed.  The sync routine
  writes the cached rules first and the time stamp second, with nothing that undoes the
  first write.  A sync attempt that returns has
  updated both keys.  A sync attempt that fails never changes the time stamp; it changes
  the cache only to the fetched rules, and only when the update of the time stamp is
  rejected after the update of the cache went through, and in that case it does.
\<close>

theorem syncRules_keys:
  "(\<forall>rs. fst (syncRules e w) = Inr rs \<longrightarrow>
       fetched e rs
       \<and> cachedRulesSetting (snd (syncRules e w)) = Some (JSON_stringify rs)
       \<and> lastSyncSetting (snd (syncRules e w)) = Some (Number (now_saved e)))
   \<and> ((\<forall>rs. fst (syncRules e w) \<noteq> Inr rs) \<longrightarrow>
       lastSyncSetting (snd (syncRules e w)) = lastSyncSetting w
       \<and> (cachedRulesSetting (snd (syncRules e w)) \<noteq> cachedRulesSetting w \<longrightarrow>
            (\<exists>rs. fetched e rs \<and> cachedRulesSetting (snd (syncRules e w)) = Some (JSON_stringify rs))
            \<and> \<not> updateLastSyncOk e))
   \<and> (\<forall>rs. fetched e rs \<and> rulesJsonWritable e \<and> updateCacheOk e \<and> \<not> updateLastSyncOk e \<longrightarrow>
       fst (syncRules e w) = Inl UpdateError
       \<and> cachedRulesSetting (snd (syncRules e w)) = Some (JSON_stringify rs)
       \<and> lastSyncSetting (snd (syncRules e w)) = lastSyncSetting w)
   \<and> (\<forall>m. cachedRulesSetting (snd (onDidReceiveMessage e m w)) \<noteq> cachedRulesSetting w
            \<or> lastSyncSetting (snd (onDidReceiveMessage e m w)) \<noteq> lastSyncSetting w
        \<longrightarrow> (\<exists>rs. fetched e rs))
   \<and> (cachedRulesSetting (show_panel e w) \<noteq> cachedRulesSetting w
        \<or> lastSyncSetting (show_panel e w) \<noteq> lastSyncSetting w
        \<longrightarrow> (\<exists>rs. fetched e rs))"
proof (intro conjI allI impI)
  fix rs assume "fst (syncRules e w) = Inr rs"
  then have run: "syncRules e w = (Inr rs, snd (syncRules e w))"
    by (simp add: prod_eq_iff)
  show "fetched e rs"
    and "cachedRulesSetting (snd (syncRules e w)) = Some (JSON_stringify rs)"
    and "lastSyncSetting (snd (syncRules e w)) = Some (Number (now_saved e))"
    using syncRules_returns [OF run] by simp_all
next
  assume "\<forall>rs. fst (syncRules e w) \<noteq> Inr rs"
  then obtain err where "fst (syncRules e w) = Inl err"
    by (cases "fst (syncRules e w)") auto
  then have run: "syncRules e w = (Inl err, snd (syncRules e w))"
    by (simp add: prod_eq_iff)
  show "lastSyncSetting (snd (syncRules e w)) = lastSyncSetting w"
    using syncRules_throws [OF run] by simp
  {
    assume "cachedRulesSetting (snd (syncRules e w)) \<noteq> cachedRulesSetting w"
    then show "\<exists>rs. fetched e rs \<and> cachedRulesSetting (snd (syncRules e w)) = Some (JSON_stringify rs)"
      and "\<not> updateLastSyncOk e"
      using syncRules_throws [OF run] by simp_all
  }
next
  fix rs assume "fetched e rs \<and> rulesJsonWritable e \<and> updateCacheOk e \<and> \<not> updateLastSyncOk e"
  then obtain w' where "syncRules e w = (Inl UpdateError, w')"
    and "cachedRulesSetting w' = Some (JSON_stringify rs)"
    and "lastSyncSetting w' = lastSyncSetting w"
    using syncRules_stamp_rejected [of e rs w] by blast
  then show "fst (syncRules e w) = Inl UpdateError"
    and "cachedRulesSetting (snd (syncRules e w)) = Some (JSON_stringify rs)"
    and "lastSyncSetting (snd (syncRules e w)) = lastSyncSetting w"
    by simp_all
next
  fix m
  assume "cachedRulesSetting (snd (onDidReceiveMessage e m w)) \<noteq> cachedRulesSetting w
      \<or> lastSyncSetting (snd (onDidReceiveMessage e m w)) \<noteq> lastSyncSetting w"
  then show "\<exists>rs. fetched e rs"
    by (rule handler_frame)
next
  assume "cachedRulesSetting (show_panel e w) \<noteq> cachedRulesSetting w
      \<or> lastSyncSetting (show_panel e w) \<noteq> lastSyncSetting w"
  then show "\<exists>rs. fetched e rs"
    by (rule show_panel_frame)
qed

theorem syncRules_keys_witness:
  "fst (syncRules env0 world0) = Inr [ruleA, ruleB]
   \<and> cachedRulesSetting (snd (syncRules env0 world0)) = Some (Rules_text [ruleA, ruleB])
   \<and> lastSyncSetting (snd (syncRules env0 world0)) = Some (Number 1700000000100)
   \<and> fetched (env0\<lparr>updateLastSyncOk := False\<rparr>) [ruleA, ruleB]
   \<and> rulesJsonWritable (env0\<lparr>updateLastSyncOk := False\<rparr>)
   \<and> updateCacheOk (env0\<lparr>updateLastSyncOk := False\<rparr>)
   \<and> \<not> updateLastSyncOk (env0\<lparr>updateLastSyncOk := False\<rparr>)
   \<and> (\<forall>rs. fst (syncRules (env0\<lparr>updateLastSyncOk := False\<rparr>) world0) \<noteq> Inr rs)
   \<and> cachedRulesSetting (snd (syncRules (env0\<lparr>updateLastSyncOk := False\<rparr>) world0))
       = Some (Rules_text [ruleA, ruleB])
   \<and> lastSyncSetting (snd (syncRules (env0\<lparr>updateLastSyncOk := False\<rparr>) world0)) = None
   \<and> cachedRulesSetting (snd (onDidReceiveMessage env0 GetRules world0)) \<noteq> cachedRulesSetting world0
   \<and> cachedRulesSetting (show_panel env0 (world0\<lparr>panel := False\<rparr>))
       \<noteq> cachedRulesSetting (world0\<lparr>panel := False\<rparr>)
   \<and> (\<exists>rs. fetched env0 rs)"
proof -
  let ?e = "env0\<lparr>updateLastSyncOk := False\<rparr>"
  have msg: "cachedRulesSetting (snd (onDidReceiveMessage env0 GetRules world0)) \<noteq> cachedRulesSetting world0"
    by (simp add: onDidReceiveMessage_def sendRules_def loadRules_def syncRules_def fetch_def
          emit_def json_def setLastSync_def loadLocalRules_def getLastSync_def computeNeedsSync_def
          JSON_parse_def JSON_stringify_def world0_def env0_def Let_def)
  have cmd: "cachedRulesSetting (show_panel env0 (world0\<lparr>panel := False\<rparr>))
      \<noteq> cachedRulesSetting (world0\<lparr>panel := False\<rparr>)"
    by (simp add: show_panel_def sendRules_def loadRules_def syncRules_def fetch_def
          emit_def json_def setLastSync_def loadLocalRules_def getLastSync_def computeNeedsSync_def
          JSON_parse_def JSON_stringify_def world0_def env0_def Let_def)
  from syncRules_keys [of env0 world0] msg
  have c: "\<exists>rs. fetched env0 rs"
    by blast
  from syncRules_keys [of env0 "world0\<lparr>panel := False\<rparr>"] cmd
  have d: "\<exists>rs. fetched env0 rs"
    by blast
  have returns: "fst (syncRules env0 world0) = Inr [ruleA, ruleB]"
    by (simp add: syncRules_def fetch_def emit_def json_def setLastSync_def
          JSON_parse_def world0_def env0_def Let_def)
  have h: "fetched ?e [ruleA, ruleB] \<and> rulesJsonWritable ?e \<and> updateCacheOk ?e \<and> \<not> updateLastSyncOk ?e"
    by (simp add: fetched_def env0_def json_def JSON_parse_def)
  have saved: "now_saved env0 = 1700000000100" and stamp0: "lastSyncSetting world0 = None"
    by (simp_all add: env0_def world0_def)
  from syncRules_keys [of env0 world0] returns
  have a: "cachedRulesSetting (snd (syncRules env0 world0)) = Some (JSON_stringify [ruleA, ruleB])
      \<and> lastSyncSetting (snd (syncRules env0 world0)) = Some (Number (now_saved env0))"
    by blast
  from syncRules_keys [of ?e world0] h
  have b: "fst (syncRules ?e world0) = Inl UpdateError
      \<and> cachedRulesSetting (snd (syncRules ?e world0)) = Some (JSON_stringify [ruleA, ruleB])
      \<and> lastSyncSetting (snd (syncRules ?e world0)) = lastSyncSetting world0"
    by blast
  show ?thesis
    using returns h a b c d msg cmd by (simp add: JSON_stringify_def saved stamp0)
qed

section \<open>Errors at the boundary of the message handler\<close>

lemma getRules_handled:
  "fst (onDidReceiveMessage e GetRules w) = Inr ()"
  by (simp add: onDidReceiveMessage_def)

lemma setRule_handled:
  "fst (onDidReceiveMessage e (SetRule rule) w) = Inr ()"
  by (simp add: onDidReceiveMessage_def)

lemma syncRules_message_escapes:
  assumes "fst (syncRules e w) = Inl err"
  shows "fst (onDidReceiveMessage e SyncRules w) = Inl err"
  using assms by (auto simp: onDidReceiveMessage_def split: prod.splits sum.splits)

text \<open>
  Claim C7 does not hold of the source for the \<open>syncRules\<close> message.  With the network
  down, the sync routine re-throws the network error, the handler has nothing that catches
  it, so the handler's promise rejects with it, and no notification is shown.  The
  \<open>getRules\<close> message on the same input is handled: the load routine catches the error
  and answers with the local rules.
\<close>

theorem syncRules_message_uncaught:
  "fst (onDidReceiveMessage (env0\<lparr>network := \<lambda>m. Inl NetworkError\<rparr>) SyncRules world0) = Inl NetworkError
   \<and> filter notification
        (events (snd (onDidReceiveMessage (env0\<lparr>network := \<lambda>m. Inl NetworkError\<rparr>) SyncRules world0))) = []
   \<and> fst (onDidReceiveMessage (env0\<lparr>network := \<lambda>m. Inl NetworkError\<rparr>) GetRules world0) = Inr ()
   \<and> events (snd (onDidReceiveMessage (env0\<lparr>network := \<lambda>m. Inl NetworkError\<rparr>) GetRules world0))
       = [Fetch HEAD, PostMessage (SetRules [ruleA] None True True)]"
  by (simp add: onDidReceiveMessage_def sendRules_def loadRules_def syncRules_def fetch_def emit_def
        loadLocalRules_def getLastSync_def JSON_parse_def world0_def env0_def Let_def)

section \<open>Applying a rule\<close>

text \<open>
  Claim C8.  When a workspace is open and its root has no \<open>.cursorrules\<close> file, the
  applier goes to the write without a prompt: its only event is the notification of the
  outcome.  The write passes exactly the rule's \<open>content\<close>, so once the file system has
  carried it out the file holds that string and nothing else, and no other file is
  touched; when the file system refuses the write, the failure is reported and no file
  changes.
\<close>

theorem setRule_new_file:
  assumes "workspaceFolder w = Some dir"
    and "files w (path_join dir ''.cursorrules'') = None"
  shows "events (setRule e rule w) = events w @
       [if fileWritable e (path_join dir ''.cursorrules'')
        then ShowInformationMessage (''Successfully applied rule: '' @ title rule)
        else ShowErrorMessage ''Failed to apply rule. Please check console for details.'']
    \<and> files (setRule e rule w) =
       (if fileWritable e (path_join dir ''.cursorrules'')
        then (files w)(path_join dir ''.cursorrules'' \<mapsto> content rule)
        else files w)"
  using assms by (simp add: setRule_def emit_def Let_def)

theorem setRule_new_file_witness:
  "workspaceFolder world0 = Some ''/home/u/project''
   \<and> files world0 (path_join ''/home/u/project'' ''.cursorrules'') = None
   \<and> events (setRule env0 ruleB world0) = [ShowInformationMessage ''Successfully applied rule: B'']
   \<and> files (setRule env0 ruleB world0) (path_join ''/home/u/project'' ''.cursorrules'')
       = Some ''Prefer type hints.''"
proof -
  have h1: "workspaceFolder world0 = Some ''/home/u/project''"
    by (simp add: world0_def)
  have h2: "files world0 (path_join ''/home/u/project'' ''.cursorrules'') = None"
    by (simp add: world0_def)
  have w: "fileWritable env0 (path_join ''/home/u/project'' ''.cursorrules'')"
    by (simp add: env0_def)
  have r: "title ruleB = ''B''" "content ruleB = ''Prefer type hints.''" "events world0 = []"
    by (simp_all add: ruleB_def world0_def)
  show ?thesis
    using h1 h2 setRule_new_file [OF h1 h2, of env0 ruleB] by (simp add: w r)
qed

text \<open>
  Claim C9.  When the destination \<open>.cursorrules\<close> file exists, the applier first asks
  the user whether to overwrite it.  Unless the answer is \<open>Yes\<close>, nothing is written: the
  state after is the state before with the question added to the event log, so the file
  keeps its contents, no error is reported, and the handler returns normally.  The file
  is written only after the answer \<open>Yes\<close>.
\<close>

theorem setRule_existing_file:
  assumes "workspaceFolder w = Some dir"
    and "files w (path_join dir ''.cursorrules'') = Some old"
  shows "take (Suc (length (events w))) (events (setRule e rule w)) = events w @
       [ShowWarningMessage ''A .cursorrules file already exists. Do you want to overwrite it?''
          [''Yes'', ''No'']]
    \<and> (choice e \<noteq> Some ''Yes'' \<longrightarrow>
         setRule e rule w =
           emit (ShowWarningMessage ''A .cursorrules file already exists. Do you want to overwrite it?''
                  [''Yes'', ''No'']) w
         \<and> files (setRule e rule w) = files w
         \<and> onDidReceiveMessage e (SetRule rule) w = (Inr (), setRule e rule w))
    \<and> (files (setRule e rule w) \<noteq> files w \<longrightarrow> choice e = Some ''Yes'')"
  using assms by (simp add: setRule_def emit_def Let_def onDidReceiveMessage_def)

theorem setRule_existing_file_witness:
  "workspaceFolder (world0\<lparr>files := [path_join ''/home/u/project'' ''.cursorrules'' \<mapsto> ''old rules'']\<rparr>)
     = Some ''/home/u/project''
   \<and> choice env0 \<noteq> Some ''Yes''
   \<and> events (setRule env0 ruleB (world0\<lparr>files := [path_join ''/home/u/project'' ''.cursorrules'' \<mapsto> ''old rules'']\<rparr>))
      = [ShowWarningMessage ''A .cursorrules file already exists. Do you want to overwrite it?'' [''Yes'', ''No'']]
   \<and> files (setRule env0 ruleB (world0\<lparr>files := [path_join ''/home/u/project'' ''.cursorrules'' \<mapsto> ''old rules'']\<rparr>))
        (path_join ''/home/u/project'' ''.cursorrules'') = Some ''old rules''
   \<and> files (setRule (env0\<lparr>choice := Some ''Yes''\<rparr>) ruleB
        (world0\<lparr>files := [path_join ''/home/u/project'' ''.cursorrules'' \<mapsto> ''old rules'']\<rparr>))
        (path_join ''/home/u/project'' ''.cursorrules'') = Some ''Prefer type hints.''"
proof -
  let ?w = "world0\<lparr>files := [path_join ''/home/u/project'' ''.cursorrules'' \<mapsto> ''old rules'']\<rparr>"
  have h1: "workspaceFolder ?w = Some ''/home/u/project''"
    by (simp add: world0_def)
  have h2: "files ?w (path_join ''/home/u/project'' ''.cursorrules'') = Some ''old rules''"
    by simp
  have h3: "choice env0 \<noteq> Some ''Yes''"
    by (simp add: env0_def)
  have yes: "files (setRule (env0\<lparr>choice := Some ''Yes''\<rparr>) ruleB ?w)
      (path_join ''/home/u/project'' ''.cursorrules'') = Some ''Prefer type hints.''"
    by (simp add: setRule_def emit_def Let_def world0_def env0_def ruleB_def)
  have ev: "events world0 = []"
    by (simp add: world0_def)
  from setRule_existing_file [OF h1 h2, of env0 ruleB] h3
  have declined: "setRule env0 ruleB ?w =
      emit (ShowWarningMessage ''A .cursorrules file already exists. Do you want to overwrite it?''
             [''Yes'', ''No'']) ?w"
    by blast
  show ?thesis
    using h1 h3 yes by (simp add: declined emit_def ev)
qed

end
